theory Spec2Isabelle
  imports Main "HOL-Library.Sublist"
begin

section \<open>Beam analysis report generator (src/main.py)\<close>

text \<open>
  The program reads \<^verbatim>\<open>beam_data.xlsx\<close> with pandas, builds a PyLaTeX document (narrative
  text, a table of all rows, two pgfplots diagrams whose coordinates are written by
  f-strings) and hands it to PyLaTeX's \<^verbatim>\<open>generate_pdf\<close>.  Everything the program does to
  the data is string formatting, so the development starts with the values a cell can
  hold and the two ways the source formats them: \<^verbatim>\<open>f"{v}"\<close> and \<^verbatim>\<open>f"{v:.1f}"\<close>.
\<close>

subsection \<open>Python values and exceptions\<close>

text \<open>
  A binary floating point number is kept as sign, mantissa and binary exponent: the
  value of \<open>Finite s m e\<close> is \<open>(-1)^s * m * 2^e\<close>, so \<open>Finite False 135 (-1)\<close> is 67.5.
\<close>

datatype pyfloat = Finite bool nat int | Infinity bool | NaN

datatype pyval = PyInt int | PyFloat pyfloat | PyStr string

datatype error =
    FileNotFoundError
  | ValueError
  | KeyError string
  | OverflowError
  | CalledProcessError
  | CompilerError

subsection \<open>Decimal digits\<close>

definition digit_char :: "nat \<Rightarrow> char" where
  "digit_char d =
     (if d = 0 then CHR ''0'' else if d = 1 then CHR ''1'' else if d = 2 then CHR ''2''
      else if d = 3 then CHR ''3'' else if d = 4 then CHR ''4'' else if d = 5 then CHR ''5''
      else if d = 6 then CHR ''6'' else if d = 7 then CHR ''7'' else if d = 8 then CHR ''8''
      else CHR ''9'')"

fun digits :: "nat \<Rightarrow> string" where
  "digits n = (if n < 10 then [digit_char n] else digits (n div 10) @ [digit_char (n mod 10)])"

declare digits.simps [simp del]

text \<open>\<^verbatim>\<open>str(i)\<close> for a Python int.\<close>

definition int_str :: "int \<Rightarrow> string" where
  "int_str i = (if i < 0 then CHR ''-'' # digits (nat (- i)) else digits (nat i))"

subsection \<open>Fixed-point formatting: \<^verbatim>\<open>format(x, ".1f")\<close>\<close>

text \<open>
  CPython rounds the exact binary value correctly (ties to even) to the requested
  number of decimals.  \<open>tenths m e\<close> is \<open>m * 2^e * 10\<close> rounded that way.
\<close>

definition tenths :: "nat \<Rightarrow> int \<Rightarrow> nat" where
  "tenths m e =
     (if 0 \<le> e then m * 10 * 2 ^ nat e
      else let d = 2 ^ nat (- e); n = m * 10; q = n div d; r = n mod d
           in if d < 2 * r \<or> (2 * r = d \<and> odd q) then q + 1 else q)"

definition sign_str :: "bool \<Rightarrow> string" where
  "sign_str s = (if s then ''-'' else [])"

fun float_format_1f :: "pyfloat \<Rightarrow> string" where
  "float_format_1f (Finite s m e) =
     sign_str s @ digits (tenths m e div 10) @ ''.'' @ [digit_char (tenths m e mod 10)]"
| "float_format_1f (Infinity s) = sign_str s @ ''inf''"
| "float_format_1f NaN = ''nan''"

subsection \<open>Conversion of an integer to a float\<close>

fun bitlen :: "nat \<Rightarrow> nat" where
  "bitlen n = (if n = 0 then 0 else Suc (bitlen (n div 2)))"

declare bitlen.simps [simp del]

text \<open>
  Conversion of an integer to the nearest double: exact below \<open>2^53\<close>, otherwise
  rounded to 53 significant bits, ties to even.  This is what numpy does when an
  \<^verbatim>\<open>int64\<close> is cast to \<^verbatim>\<open>float64\<close>.
\<close>

definition int_to_float :: "int \<Rightarrow> pyfloat" where
  "int_to_float i =
     (let a = nat \<bar>i\<bar>; b = bitlen a
      in if b \<le> 53 then Finite (i < 0) a 0
         else let sh = b - 53; d = 2 ^ sh; q = a div d; r = a mod d
              in Finite (i < 0) (if d < 2 * r \<or> (2 * r = d \<and> odd q) then q + 1 else q)
                   (int sh))"

text \<open>
  \<^verbatim>\<open>float(i)\<close> for a Python int, which has no bound: a result of \<open>2^1024\<close> or more is
  not a double and CPython raises OverflowError.
\<close>

fun too_large :: "pyfloat \<Rightarrow> bool" where
  "too_large (Finite s m e) = (2 ^ 1024 \<le> m * 2 ^ nat e)"
| "too_large x = False"

definition float_of_int :: "int \<Rightarrow> error + pyfloat" where
  "float_of_int i =
     (if too_large (int_to_float i) then Inl OverflowError else Inr (int_to_float i))"

subsection \<open>Shortest round-trip formatting: \<^verbatim>\<open>str(x)\<close> for a float\<close>

text \<open>
  \<^verbatim>\<open>str\<close> and \<^verbatim>\<open>repr\<close> of a float print the shortest decimal that reads back as the same
  double and, among those, the one nearest to it.  The doubles next to \<open>m * 2^e\<close> are one
  unit in the last place away, \<open>2^ulp_exp\<close> (half of it below a power of two), and every
  decimal nearer than half of that distance reads back as \<open>m * 2^e\<close>; the two end points
  do so when the 53-bit mantissa is even.

  All quantities are integers: \<open>unit_exp\<close> is the binary exponent of the unit they are
  counted in, and a decimal \<open>c * 10^k\<close> is compared with \<open>x\<close> units by cross
  multiplication with \<open>dec_scale\<close> and \<open>bin_scale\<close>.
\<close>

definition ulp_exp :: "nat \<Rightarrow> int \<Rightarrow> int" where
  "ulp_exp m e = max (e + int (bitlen m) - 53) (- 1074)"

definition unit_exp :: "nat \<Rightarrow> int \<Rightarrow> int" where
  "unit_exp m e = min e (ulp_exp m e - 2)"

definition units :: "nat \<Rightarrow> int \<Rightarrow> nat" where
  "units m e = m * 2 ^ nat (e - unit_exp m e)"

definition half_above :: "nat \<Rightarrow> int \<Rightarrow> nat" where
  "half_above m e = 2 ^ nat (ulp_exp m e - 1 - unit_exp m e)"

definition half_below :: "nat \<Rightarrow> int \<Rightarrow> nat" where
  "half_below m e =
     (if m = 2 ^ (bitlen m - 1) \<and> - 1074 < ulp_exp m e
      then 2 ^ nat (ulp_exp m e - 2 - unit_exp m e)
      else half_above m e)"

definition mantissa_even :: "nat \<Rightarrow> int \<Rightarrow> bool" where
  "mantissa_even m e = even (units m e div 2 ^ nat (ulp_exp m e - unit_exp m e))"

definition dec_scale :: "nat \<Rightarrow> int \<Rightarrow> int \<Rightarrow> nat" where
  "dec_scale m e k = 10 ^ nat k * 2 ^ nat (- unit_exp m e)"

definition bin_scale :: "nat \<Rightarrow> int \<Rightarrow> int \<Rightarrow> nat" where
  "bin_scale m e k = 10 ^ nat (- k) * 2 ^ nat (unit_exp m e)"

definition reads_back :: "nat \<Rightarrow> int \<Rightarrow> int \<Rightarrow> nat \<Rightarrow> bool" where
  "reads_back m e k c =
     (let x = c * dec_scale m e k;
          lo = (units m e - half_below m e) * bin_scale m e k;
          hi = (units m e + half_above m e) * bin_scale m e k
      in if mantissa_even m e then lo \<le> x \<and> x \<le> hi else lo < x \<and> x < hi)"

text \<open>
  The candidates with last digit at \<open>10^k\<close> are the two multiples of \<open>10^k\<close> around the
  value; \<open>nearest_at\<close> is the one that reads back (the nearer one, or the even one on a
  tie, when both do).
\<close>

definition nearest_at :: "nat \<Rightarrow> int \<Rightarrow> int \<Rightarrow> nat option" where
  "nearest_at m e k =
     (let v = units m e * bin_scale m e k; p = dec_scale m e k;
          c = v div p; ok_lo = reads_back m e k c; ok_hi = reads_back m e k (c + 1)
      in if ok_lo \<and> ok_hi then
           (if v - c * p < (c + 1) * p - v then Some c
            else if (c + 1) * p - v < v - c * p then Some (c + 1)
            else if even c then Some c else Some (c + 1))
         else if ok_lo then Some c
         else if ok_hi then Some (c + 1)
         else None)"

text \<open>
  The search runs from a power of ten above the value downwards, so the first hit has
  the fewest digits.  Below \<open>10^(-400)\<close> every double has been passed.
\<close>

function shortest :: "nat \<Rightarrow> int \<Rightarrow> int \<Rightarrow> nat \<times> int" where
  "shortest m e k =
     (case nearest_at m e k of
        Some c \<Rightarrow> (c, k)
      | None \<Rightarrow> if k \<le> - 400 then (0, k) else shortest m e (k - 1))"
  by pat_completeness auto
termination
  by (relation "measure (\<lambda>(m, e, k). nat (k + 400))") auto

declare shortest.simps [simp del]

definition shortest_digits :: "nat \<Rightarrow> int \<Rightarrow> nat \<times> int" where
  "shortest_digits m e =
     shortest m e (int (length (digits ((units m e + half_above m e) * 2 ^ nat (unit_exp m e)))))"

text \<open>
  The digits \<open>ds\<close> with the decimal point after the first \<open>decpt\<close> of them: positional
  notation when \<open>-4 < decpt \<le> 16\<close>, with \<^verbatim>\<open>.0\<close> added to a whole number, and exponent
  notation with at least two exponent digits otherwise.
\<close>

definition exponent_str :: "int \<Rightarrow> string" where
  "exponent_str x =
     (if x < 0 then ''-'' else ''+'') @
     (if \<bar>x\<bar> < 10 then ''0'' else []) @ digits (nat \<bar>x\<bar>)"

definition repr_layout :: "string \<Rightarrow> int \<Rightarrow> string" where
  "repr_layout ds decpt =
     (if - 4 < decpt \<and> decpt \<le> 16 then
        (if decpt \<le> 0 then ''0.'' @ replicate (nat (- decpt)) (CHR ''0'') @ ds
         else if int (length ds) \<le> decpt
           then ds @ replicate (nat decpt - length ds) (CHR ''0'') @ ''.0''
         else take (nat decpt) ds @ ''.'' @ drop (nat decpt) ds)
      else take 1 ds @ (if 1 < length ds then ''.'' @ drop 1 ds else [])
           @ ''e'' @ exponent_str (decpt - 1))"

fun float_repr :: "pyfloat \<Rightarrow> string" where
  "float_repr (Finite s m e) =
     sign_str s @
     (if m = 0 then ''0.0''
      else case shortest_digits m e of
             (c, k) \<Rightarrow> repr_layout (digits c) (int (length (digits c)) + k))"
| "float_repr (Infinity s) = sign_str s @ ''inf''"
| "float_repr NaN = ''nan''"

subsection \<open>The two format specifications the program uses\<close>

text \<open>
  \<^verbatim>\<open>f"{v}"\<close>: numpy scalars are converted to the Python number first, so this is \<^verbatim>\<open>str\<close>.
\<close>

fun py_str :: "pyval \<Rightarrow> string" where
  "py_str (PyInt i) = int_str i"
| "py_str (PyFloat x) = float_repr x"
| "py_str (PyStr s) = s"

text \<open>
  \<^verbatim>\<open>f"{v:.1f}"\<close>: an integer is converted to a float and formatted as one; a string does
  not know the format code \<^verbatim>\<open>f\<close> and raises ValueError.
\<close>

fun py_format_1f :: "pyval \<Rightarrow> error + string" where
  "py_format_1f (PyInt i) =
     (case float_of_int i of Inl err \<Rightarrow> Inl err | Inr x \<Rightarrow> Inr (float_format_1f x))"
| "py_format_1f (PyFloat x) = Inr (float_format_1f x)"
| "py_format_1f (PyStr s) = Inl ValueError"

subsection \<open>The DataFrame\<close>

text \<open>
  \<^verbatim>\<open>pd.read_excel\<close> returns a DataFrame: named columns of equal length, each with one
  dtype.  A column of whole numbers is \<^verbatim>\<open>int64\<close>, a numeric column with a fraction or
  an empty cell is \<^verbatim>\<open>float64\<close> (an empty cell is NaN), and a column with text keeps
  the Python objects.  pandas decides this when it reads the sheet; here a frame is
  given with its dtypes.
\<close>

datatype column = Int64 "int list" | Float64 "pyfloat list" | Object "pyval list"

type_synonym dataframe = "(string \<times> column) list"

datatype dtype = int64 | float64 | object

fun dtype_of :: "column \<Rightarrow> dtype" where
  "dtype_of (Int64 xs) = int64"
| "dtype_of (Float64 xs) = float64"
| "dtype_of (Object xs) = object"

fun column_length :: "column \<Rightarrow> nat" where
  "column_length (Int64 xs) = length xs"
| "column_length (Float64 xs) = length xs"
| "column_length (Object xs) = length xs"

fun nrows :: "dataframe \<Rightarrow> nat" where
  "nrows [] = 0"
| "nrows ((name, c) # df) = column_length c"

fun cell :: "column \<Rightarrow> nat \<Rightarrow> pyval" where
  "cell (Int64 xs) i = PyInt (xs ! i)"
| "cell (Float64 xs) i = PyFloat (xs ! i)"
| "cell (Object xs) i = xs ! i"

text \<open>
  \<^verbatim>\<open>df.iterrows()\<close> yields every row as a Series indexed by the column names.  A
  Series has one dtype, the common dtype of the columns, so in a frame with an
  \<^verbatim>\<open>int64\<close> and a \<^verbatim>\<open>float64\<close> column the integers of a row arrive as floats.
\<close>

definition row_dtype :: "dataframe \<Rightarrow> dtype" where
  "row_dtype df =
     (if list_ex (\<lambda>(name, c). dtype_of c = object) df then object
      else if list_ex (\<lambda>(name, c). dtype_of c = float64) df then float64
      else int64)"

fun astype :: "dtype \<Rightarrow> pyval \<Rightarrow> pyval" where
  "astype float64 (PyInt i) = PyFloat (int_to_float i)"
| "astype t v = v"

type_synonym row = "(string \<times> pyval) list"

definition row_at :: "dataframe \<Rightarrow> nat \<Rightarrow> row" where
  "row_at df i = map (\<lambda>(name, c). (name, astype (row_dtype df) (cell c i))) df"

definition iterrows :: "dataframe \<Rightarrow> row list" where
  "iterrows df = map (row_at df) [0..<nrows df]"

text \<open>\<^verbatim>\<open>row[name]\<close> raises KeyError when the frame has no such column.\<close>

definition getitem :: "row \<Rightarrow> string \<Rightarrow> error + pyval" where
  "getitem r name = (case map_of r name of None \<Rightarrow> Inl (KeyError name) | Some v \<Rightarrow> Inr v)"

text \<open>The replacement fields \<^verbatim>\<open>{row[name]}\<close> and \<^verbatim>\<open>{row[name]:.1f}\<close> of an f-string.\<close>

definition field_str :: "row \<Rightarrow> string \<Rightarrow> error + string" where
  "field_str r name = (case getitem r name of Inl err \<Rightarrow> Inl err | Inr v \<Rightarrow> Inr (py_str v))"

definition field_1f :: "row \<Rightarrow> string \<Rightarrow> error + string" where
  "field_1f r name = (case getitem r name of Inl err \<Rightarrow> Inl err | Inr v \<Rightarrow> py_format_1f v)"

subsection \<open>The two plot generators\<close>

abbreviation bs :: string where
  "bs \<equiv> [CHR 0x5C]"

text \<open>
  Lines 154-155 and 199-200 are the same loop over \<^verbatim>\<open>df.iterrows()\<close>, once for the
  column \<^verbatim>\<open>Shear force\<close> and once for \<^verbatim>\<open>Bending Moment\<close>:
  \<^verbatim>\<open>tikz_code += f"        ({row['X']}, {row[name]})\n"\<close>.
\<close>

fun add_coordinates :: "string \<Rightarrow> row list \<Rightarrow> string \<Rightarrow> error + string" where
  "add_coordinates name [] tikz_code = Inr tikz_code"
| "add_coordinates name (r # rows) tikz_code =
     (case field_str r ''X'' of
        Inl err \<Rightarrow> Inl err
      | Inr x \<Rightarrow>
         (case field_str r name of
            Inl err \<Rightarrow> Inl err
          | Inr y \<Rightarrow>
              add_coordinates name rows
                (tikz_code @ ''        ('' @ x @ '', '' @ y @ '')\<newline>'')))"

definition sfd_head :: string where
  "sfd_head =
     ''\<newline>'' @
     ''    '' @ bs @ ''begin{center}\<newline>'' @
     ''    '' @ bs @ ''begin{tikzpicture}\<newline>'' @
     ''    '' @ bs @ ''begin{axis}[\<newline>'' @
     ''        width=14cm,\<newline>'' @
     ''        height=6cm,\<newline>'' @
     ''        xlabel={Beam Length (m)},\<newline>'' @
     ''        ylabel={Shear Force (kN)},\<newline>'' @
     ''        grid=major,\<newline>'' @
     ''        grid style={dotted,gray!50},\<newline>'' @
     ''        xmin=0, xmax=12,\<newline>'' @
     ''        ymin=-50, ymax=50,\<newline>'' @
     ''        xtick={0,2,4,6,8,10,12},\<newline>'' @
     ''        ytick={-40,-20,0,20,40},\<newline>'' @
     ''        legend pos=north east,\<newline>'' @
     ''        title={Shear Force Diagram},\<newline>'' @
     ''        axis lines=left,\<newline>'' @
     ''        thick\<newline>'' @
     ''    ]\<newline>'' @
     ''    '' @ bs @ ''addplot[\<newline>'' @
     ''        color=blue,\<newline>'' @
     ''        mark=*,\<newline>'' @
     ''        mark size=1.5pt,\<newline>'' @
     ''        line width=1.5pt\<newline>'' @
     ''    ]\<newline>'' @
     ''    coordinates {\<newline>'' @
     ''    ''"

definition sfd_tail :: string where
  "sfd_tail =
     ''    };\<newline>'' @
     ''    '' @ bs @ ''addplot[color=red, dashed, line width=1pt] coordinates {(0,0) (12,0)};\<newline>'' @
     ''    '' @ bs @ ''legend{Shear Force, Zero Line}\<newline>'' @
     ''    '' @ bs @ ''end{axis}\<newline>'' @
     ''    '' @ bs @ ''end{tikzpicture}\<newline>'' @
     ''    '' @ bs @ ''end{center}\<newline>'' @
     ''    ''"

definition generate_sfd_plot :: "dataframe \<Rightarrow> error + string" where
  "generate_sfd_plot df =
     (case add_coordinates ''Shear force'' (iterrows df) sfd_head of
        Inl err \<Rightarrow> Inl err
      | Inr tikz_code \<Rightarrow> Inr (tikz_code @ sfd_tail))"

definition bmd_head :: string where
  "bmd_head =
     ''\<newline>'' @
     ''    '' @ bs @ ''begin{center}\<newline>'' @
     ''    '' @ bs @ ''begin{tikzpicture}\<newline>'' @
     ''    '' @ bs @ ''begin{axis}[\<newline>'' @
     ''        width=14cm,\<newline>'' @
     ''        height=6cm,\<newline>'' @
     ''        xlabel={Beam Length (m)},\<newline>'' @
     ''        ylabel={Bending Moment (kNm)},\<newline>'' @
     ''        grid=major,\<newline>'' @
     ''        grid style={dotted,gray!50},\<newline>'' @
     ''        xmin=0, xmax=12,\<newline>'' @
     ''        ymin=0, ymax=180,\<newline>'' @
     ''        xtick={0,2,4,6,8,10,12},\<newline>'' @
     ''        ytick={0,40,80,120,160},\<newline>'' @
     ''        legend pos=north east,\<newline>'' @
     ''        title={Bending Moment Diagram},\<newline>'' @
     ''        axis lines=left,\<newline>'' @
     ''        thick\<newline>'' @
     ''    ]\<newline>'' @
     ''    '' @ bs @ ''addplot[\<newline>'' @
     ''        color=red,\<newline>'' @
     ''        mark=*,\<newline>'' @
     ''        mark size=1.5pt,\<newline>'' @
     ''        line width=1.5pt\<newline>'' @
     ''    ]\<newline>'' @
     ''    coordinates {\<newline>'' @
     ''    ''"

definition bmd_tail :: string where
  "bmd_tail =
     ''    };\<newline>'' @
     ''    '' @ bs @ ''legend{Bending Moment}\<newline>'' @
     ''    '' @ bs @ ''end{axis}\<newline>'' @
     ''    '' @ bs @ ''end{tikzpicture}\<newline>'' @
     ''    '' @ bs @ ''end{center}\<newline>'' @
     ''    ''"

definition generate_bmd_plot :: "dataframe \<Rightarrow> error + string" where
  "generate_bmd_plot df =
     (case add_coordinates ''Bending Moment'' (iterrows df) bmd_head of
        Inl err \<Rightarrow> Inl err
      | Inr tikz_code \<Rightarrow> Inr (tikz_code @ bmd_tail))"

subsection \<open>The PyLaTeX document\<close>

text \<open>
  The document is kept as the object tree PyLaTeX holds before it writes the source:
  a plain Python string (\<open>Text\<close>) is escaped when the tree is dumped, a \<open>NoEscape\<close> string
  is written as it is.  \<^verbatim>\<open>with doc.create(x):\<close> redirects \<^verbatim>\<open>doc.append\<close> to \<open>x\<close> for the
  block and appends \<open>x\<close> at its end, so the blocks of the source are the children here.
\<close>

datatype latex =
    Text string
  | NoEscape string
  | Section string "latex list"
  | Subsection string "latex list"
  | Figure string "latex list"
  | Image string string
  | Caption string
  | Tabular string "latex list"
  | HLine
  | Row "string list"

datatype package = Package string "string list"

datatype command = Command string latex

record document =
  documentclass :: string
  document_options :: "string list"
  packages :: "package list"
  preamble :: "command list"
  data :: "latex list"

text \<open>
  Lines 67-69: one \<^verbatim>\<open>add_row\<close> with the three fields formatted by \<^verbatim>\<open>.1f\<close>, and one
  \<^verbatim>\<open>add_hline\<close>, for every row.  The fields are formatted from left to right and the
  first that fails ends the run.
\<close>

fun add_rows :: "row list \<Rightarrow> latex list \<Rightarrow> error + latex list" where
  "add_rows [] table = Inr table"
| "add_rows (r # rows) table =
     (case field_1f r ''X'' of
        Inl err \<Rightarrow> Inl err
      | Inr x \<Rightarrow>
         (case field_1f r ''Shear force'' of
            Inl err \<Rightarrow> Inl err
          | Inr v \<Rightarrow>
             (case field_1f r ''Bending Moment'' of
                Inl err \<Rightarrow> Inl err
              | Inr m \<Rightarrow> add_rows rows (table @ [Row [x, v, m], HLine]))))"

definition table_header :: "latex list" where
  "table_header =
     [HLine, Row [''Position (m)'', ''Shear Force (kN)'', ''Bending Moment (kNm)''], HLine]"

text \<open>Lines 62-69: the Tabular of the subsection "Data Source".\<close>

definition data_table :: "dataframe \<Rightarrow> error + latex" where
  "data_table df =
     (case add_rows (iterrows df) table_header of
        Inl err \<Rightarrow> Inl err
      | Inr table \<Rightarrow> Inr (Tabular ''|c|c|c|'' table))"

text \<open>Lines 45-69.\<close>

definition introduction :: "latex \<Rightarrow> latex" where
  "introduction table =
     Section ''Introduction''
       [Text ''This engineering report presents a comprehensive analysis of a simply supported beam subjected to various loads. The analysis includes shear force and bending moment calculations with corresponding diagrams.'',
        Subsection ''Beam Description''
          [Text ''The structural element under analysis is a simply supported beam with pinned support at one end and roller support at the other. This configuration allows for rotation at both ends while preventing vertical displacement at supports.'',
           Figure ''h!''
             [Image ''beam.png'' (''0.8'' @ bs @ ''textwidth''),
              Caption ''Simply Supported Beam Configuration'']],
        Subsection ''Data Source''
          [Text ''The force and moment analysis data was obtained from the provided Excel spreadsheet. The calculated values at various points along the beam length are presented in the table below:'',
           table]]"

text \<open>Lines 83-88 and 98-103.\<close>

definition sfd_observations :: "latex list" where
  "sfd_observations =
     [Text (bs @ ''textbf{Key Observations:}''),
      NoEscape (bs @ ''begin{itemize}''),
      NoEscape (bs @ ''item Maximum shear force: 45 kN''),
      NoEscape (bs @ ''item Zero shear occurs at 7.5 m from left support''),
      NoEscape (bs @ ''item Shear force changes sign at the point of maximum moment''),
      NoEscape (bs @ ''end{itemize}'')]"

definition bmd_observations :: "latex list" where
  "bmd_observations =
     [Text (bs @ ''textbf{Key Observations:}''),
      NoEscape (bs @ ''begin{itemize}''),
      NoEscape (bs @ ''item Maximum bending moment: 168.75 kNm at 7.5 m''),
      NoEscape (bs @ ''item Zero moments occur at both supports''),
      NoEscape (bs @ ''item Parabolic distribution indicates uniformly distributed load''),
      NoEscape (bs @ ''end{itemize}'')]"

text \<open>Lines 72-103.\<close>

definition analysis :: "string \<Rightarrow> string \<Rightarrow> latex" where
  "analysis sfd_tikz bmd_tikz =
     Section ''Analysis''
       [Text ''The beam analysis reveals the internal forces and moments along the beam length. Key observations from the calculations:'',
        Subsection ''Shear Force Diagram (SFD)''
          ([Text ''The Shear Force Diagram illustrates the variation of internal shear force along the beam length. Positive values indicate upward shear, while negative values indicate downward shear.'',
            NoEscape sfd_tikz] @ sfd_observations),
        Subsection ''Bending Moment Diagram (BMD)''
          ([Text ''The Bending Moment Diagram shows the variation of internal bending moment. Positive bending moment causes tension in the bottom fibers of the beam.'',
            NoEscape bmd_tikz] @ bmd_observations)]"

text \<open>Lines 106-115.\<close>

definition summary :: latex where
  "summary =
     Section ''Summary''
       [Text ''This analysis successfully demonstrates the fundamental principles of beam mechanics for a simply supported configuration.'',
        Subsection ''Shear Force Diagram''
          [Text ''A Shear Force Diagram (SFD) is a graphical representation that shows the internal shear force at every point along a beam. It helps structural engineers identify critical sections where shear stresses are maximum and where shear reinforcement may be required.''],
        Subsection ''Bending Moment Diagram''
          [Text ''A Bending Moment Diagram (BMD) illustrates the internal bending moment along the beam length. It indicates locations of maximum bending stress, helping engineers determine appropriate beam dimensions and reinforcement for moment resistance.''],
        Text ''Both diagrams are essential tools in structural design, ensuring that beams are properly sized and reinforced to withstand applied loads safely.'']"

text \<open>
  Lines 26-115 with the three pieces that depend on the data as arguments.  \<open>packages\<close>
  lists the packages the program appends to those PyLaTeX loads by itself.
\<close>

definition report :: "latex \<Rightarrow> string \<Rightarrow> string \<Rightarrow> document" where
  "report table sfd_tikz bmd_tikz =
     \<lparr>documentclass = ''report'',
      document_options = [''a4paper'', ''12pt''],
      packages =
        [Package ''tikz'' [], Package ''pgfplots'' [],
         Package ''geometry'' [''margin=1in''], Package ''graphicx'' []],
      preamble =
        [Command ''title'' (Text ''Beam Analysis Report''),
         Command ''author'' (Text ''Structural Engineering Analysis''),
         Command ''date'' (NoEscape (bs @ ''today''))],
      data =
        [NoEscape (bs @ ''maketitle''),
         NoEscape (bs @ ''tableofcontents''),
         NoEscape (bs @ ''newpage''),
         introduction table,
         analysis sfd_tikz bmd_tikz,
         summary]\<rparr>"

text \<open>
  The statements of lines 26-115 that can raise, in the order the program runs them:
  the table loop, \<^verbatim>\<open>generate_sfd_plot(df)\<close>, \<^verbatim>\<open>generate_bmd_plot(df)\<close>.
\<close>

definition build_document :: "dataframe \<Rightarrow> error + document" where
  "build_document df =
     (case data_table df of
        Inl err \<Rightarrow> Inl err
      | Inr table \<Rightarrow>
         (case generate_sfd_plot df of
            Inl err \<Rightarrow> Inl err
          | Inr sfd_tikz \<Rightarrow>
             (case generate_bmd_plot df of
                Inl err \<Rightarrow> Inl err
              | Inr bmd_tikz \<Rightarrow> Inr (report table sfd_tikz bmd_tikz))))"

subsection \<open>Files and the run of the program\<close>

text \<open>
  The working directory maps a file name to its content.  A spreadsheet is kept as
  the DataFrame pandas reads from it, the LaTeX source as the document PyLaTeX dumps
  into it (the dump is a function of the document alone).  The LaTeX compiler is part
  of the environment: given the document and the directory it succeeds or fails with
  an exception.  The progress messages printed on standard output are left out.
\<close>

datatype content = Workbook dataframe | TexSource document | Pdf document | Other

record world =
  files :: "string \<Rightarrow> content option"
  compiler :: "document \<Rightarrow> (string \<Rightarrow> content option) \<Rightarrow> error option"

text \<open>Line 23: \<^verbatim>\<open>pd.read_excel(path)\<close>.\<close>

definition read_excel :: "world \<Rightarrow> string \<Rightarrow> error + dataframe" where
  "read_excel w path =
     (case files w path of
        None \<Rightarrow> Inl FileNotFoundError
      | Some (Workbook df) \<Rightarrow> Inr df
      | Some other \<Rightarrow> Inl ValueError)"

text \<open>
  Line 119: \<^verbatim>\<open>doc.generate_pdf(path, clean_tex=False)\<close> writes \<^verbatim>\<open>path.tex\<close>, runs the
  compiler and keeps the source whether the compiler succeeds or not.
\<close>

definition generate_pdf :: "document \<Rightarrow> string \<Rightarrow> world \<Rightarrow> (error + unit) \<times> world" where
  "generate_pdf doc path w =
     (let w1 = w\<lparr>files := (files w)(path @ ''.tex'' \<mapsto> TexSource doc)\<rparr>
      in case compiler w doc (files w1) of
           Some err \<Rightarrow> (Inl err, w1)
         | None \<Rightarrow> (Inr (), w1\<lparr>files := (files w1)(path @ ''.pdf'' \<mapsto> Pdf doc)\<rparr>))"

definition generate_beam_report :: "world \<Rightarrow> (error + unit) \<times> world" where
  "generate_beam_report w =
     (case read_excel w ''beam_data.xlsx'' of
        Inl err \<Rightarrow> (Inl err, w)
      | Inr df \<Rightarrow>
         (case build_document df of
            Inl err \<Rightarrow> (Inl err, w)
          | Inr doc \<Rightarrow> generate_pdf doc ''beam_analysis_report'' w))"

subsection \<open>Reading a document\<close>

text \<open>
  The subsections of a document with their children, and its tables, found by
  walking the tree.
\<close>

fun subsections :: "latex \<Rightarrow> (string \<times> latex list) list" where
  "subsections (Section title xs) = concat (map subsections xs)"
| "subsections (Subsection title xs) = (title, xs) # concat (map subsections xs)"
| "subsections (Figure pos xs) = concat (map subsections xs)"
| "subsections (Tabular spec xs) = concat (map subsections xs)"
| "subsections x = []"

definition subsection_of :: "document \<Rightarrow> string \<Rightarrow> latex list option" where
  "subsection_of doc title = map_of (concat (map subsections (data doc))) title"



fun is_row :: "latex \<Rightarrow> bool" where
  "is_row (Row cells) = True"
| "is_row x = False"

subsection \<open>Datasets and Records\<close>

text \<open>
  A Dataset is a frame with the three columns the program reads, all columns numeric
  and of one length: the integers are 64-bit integers and the floats are finite (no
  NaN, no infinity).  A column without cells has the dtype \<^verbatim>\<open>object\<close> in pandas.
\<close>

fun is_real :: "pyval \<Rightarrow> bool" where
  "is_real (PyInt i) = (- (2 ^ 63) \<le> i \<and> i < 2 ^ 63)"
| "is_real (PyFloat (Finite s m e)) = True"
| "is_real v = False"

fun real_column :: "column \<Rightarrow> bool" where
  "real_column (Int64 xs) = list_all (\<lambda>i. is_real (PyInt i)) xs"
| "real_column (Float64 xs) = list_all (\<lambda>x. is_real (PyFloat x)) xs"
| "real_column (Object xs) = list_all is_real xs"

definition required_columns :: "string list" where
  "required_columns = [''X'', ''Shear force'', ''Bending Moment'']"

definition is_dataset :: "dataframe \<Rightarrow> bool" where
  "is_dataset df =
     (distinct (map fst df)
      \<and> list_all (\<lambda>name. name \<in> set (map fst df)) required_columns
      \<and> list_all (\<lambda>(name, c). real_column c \<and> column_length c = nrows df) df)"

text \<open>
  The Record of a row, with the values as the loops of the program receive them.
  Every row of a Dataset has the three fields.
\<close>

record Record =
  Position :: pyval
  ShearForce :: pyval
  BendingMoment :: pyval

definition record_of :: "row \<Rightarrow> Record" where
  "record_of r =
     \<lparr>Position = the (map_of r ''X''),
      ShearForce = the (map_of r ''Shear force''),
      BendingMoment = the (map_of r ''Bending Moment'')\<rparr>"

definition records :: "dataframe \<Rightarrow> Record list" where
  "records df = map record_of (iterrows df)"

subsection \<open>Coordinate lists\<close>

text \<open>
  The coordinate list of a series: one token \<^verbatim>\<open>(x, y)\<close> for each Record, each on a line
  of its own.
\<close>

definition coordinate_token :: "pyval \<Rightarrow> pyval \<Rightarrow> string" where
  "coordinate_token x y = ''('' @ py_str x @ '', '' @ py_str y @ '')''"

definition coordinate_list :: "(Record \<Rightarrow> pyval) \<Rightarrow> Record list \<Rightarrow> string" where
  "coordinate_list field D =
     concat (map (\<lambda>r. ''        '' @ coordinate_token (Position r) (field r) @ ''\<newline>'') D)"

text \<open>
  Reading a coordinate list: a token runs from an opening parenthesis to the next
  closing one, and everything between tokens is skipped.
\<close>

fun scan_tokens :: "string \<Rightarrow> string option \<Rightarrow> string list" where
  "scan_tokens [] cur = []"
| "scan_tokens (c # cs) None =
     (if c = CHR ''('' then scan_tokens cs (Some ''('') else scan_tokens cs None)"
| "scan_tokens (c # cs) (Some t) =
     (if c = CHR '')'' then (t @ '')'') # scan_tokens cs None
      else scan_tokens cs (Some (t @ [c])))"

definition coordinate_tokens :: "string \<Rightarrow> string list" where
  "coordinate_tokens s = scan_tokens s None"



text \<open>The number of places of a text at which a given piece of text starts.\<close>

fun occurrences :: "string \<Rightarrow> string \<Rightarrow> nat" where
  "occurrences pat [] = (if pat = [] then 1 else 0)"
| "occurrences pat (c # cs) = (if prefix pat (c # cs) then 1 else 0) + occurrences pat cs"

subsection \<open>Numerals\<close>

text \<open>The characters a finite number is written with.\<close>

definition numeral_chars :: "char set" where
  "numeral_chars = set ''+-.e0123456789''"







subsection \<open>Example inputs\<close>

text \<open>The Dataset [(0, 0, 0), (6, 15, 67.5), (12, 0, 0)] as pandas reads it.\<close>

definition example_frame :: dataframe where
  "example_frame =
     [(''X'', Int64 [0, 6, 12]),
      (''Shear force'', Int64 [0, 15, 0]),
      (''Bending Moment'', Float64 [Finite False 0 0, Finite False 135 (- 1), Finite False 0 0])]"

text \<open>A frame with the three columns and no row, and a sheet without the column X.\<close>

definition empty_frame :: dataframe where
  "empty_frame = [(''X'', Object []), (''Shear force'', Object []), (''Bending Moment'', Object [])]"


text \<open>A working directory that holds only the spreadsheet, and a compiler that succeeds.\<close>

definition world_with :: "dataframe \<Rightarrow> world" where
  "world_with df =
     \<lparr>files = [''beam_data.xlsx'' \<mapsto> Workbook df], compiler = (\<lambda>doc dir. None)\<rparr>"

definition empty_world :: world where
  "empty_world = \<lparr>files = Map.empty, compiler = (\<lambda>doc dir. None)\<rparr>"

section \<open>Properties\<close>

subsection \<open>An empty frame\<close>

lemma iterrows_empty: "nrows df = 0 \<Longrightarrow> iterrows df = []"
  by (simp add: iterrows_def)

lemma subsections_report:
  "concat (map subsections (data (report table sfd bmd))) =
     (''Beam Description'',
        [Text ''The structural element under analysis is a simply supported beam with pinned support at one end and roller support at the other. This configuration allows for rotation at both ends while preventing vertical displacement at supports.'',
         Figure ''h!''
           [Image ''beam.png'' (''0.8'' @ bs @ ''textwidth''),
            Caption ''Simply Supported Beam Configuration'']])
     # (''Data Source'',
        [Text ''The force and moment analysis data was obtained from the provided Excel spreadsheet. The calculated values at various points along the beam length are presented in the table below:'',
         table])
     # subsections table
     @ [(''Shear Force Diagram (SFD)'',
          [Text ''The Shear Force Diagram illustrates the variation of internal shear force along the beam length. Positive values indicate upward shear, while negative values indicate downward shear.'',
           NoEscape sfd] @ sfd_observations),
        (''Bending Moment Diagram (BMD)'',
          [Text ''The Bending Moment Diagram shows the variation of internal bending moment. Positive bending moment causes tension in the bottom fibers of the beam.'',
           NoEscape bmd] @ bmd_observations),
        (''Shear Force Diagram'',
          [Text ''A Shear Force Diagram (SFD) is a graphical representation that shows the internal shear force at every point along a beam. It helps structural engineers identify critical sections where shear stresses are maximum and where shear reinforcement may be required.'']),
        (''Bending Moment Diagram'',
          [Text ''A Bending Moment Diagram (BMD) illustrates the internal bending moment along the beam length. It indicates locations of maximum bending stress, helping engineers determine appropriate beam dimensions and reinforcement for moment resistance.''])]"
  by (simp add: report_def introduction_def analysis_def summary_def
      sfd_observations_def bmd_observations_def)

lemma build_document_report:
  "build_document df = Inr doc \<Longrightarrow>
     \<exists>table sfd bmd. data_table df = Inr (Tabular ''|c|c|c|'' table)
        \<and> generate_sfd_plot df = Inr sfd \<and> generate_bmd_plot df = Inr bmd
        \<and> doc = report (Tabular ''|c|c|c|'' table) sfd bmd"
  by (auto simp: build_document_def data_table_def split: sum.splits)

lemma set_digits: "set (digits n) \<subseteq> set ''0123456789''"
proof (induction n rule: digits.induct)
  case (1 n)
  have d: "digit_char k \<in> set ''0123456789''" for k
    by (simp add: digit_char_def)
  show ?case
  proof (cases "n < 10")
    case True
    then show ?thesis using d[of n] by (subst digits.simps) simp
  next
    case False
    then show ?thesis using 1 d[of "n mod 10"] by (subst digits.simps) simp
  qed
qed


lemma digits_numeral: "set (digits n) \<subseteq> numeral_chars"
proof -
  have "set ''0123456789'' \<subseteq> numeral_chars"
    by (simp add: numeral_chars_def)
  with set_digits[of n] show ?thesis by (rule subset_trans)
qed

lemma sign_numeral: "set (sign_str s) \<subseteq> numeral_chars"
  by (auto simp: sign_str_def numeral_chars_def)

lemma int_str_numeral: "set (int_str i) \<subseteq> numeral_chars"
proof -
  have "CHR ''-'' \<in> numeral_chars" by (simp add: numeral_chars_def)
  then show ?thesis
    using digits_numeral[of "nat (- i)"] digits_numeral[of "nat i"]
    by (simp add: int_str_def)
qed

lemma exponent_numeral: "set (exponent_str x) \<subseteq> numeral_chars"
proof -
  have "CHR ''-'' \<in> numeral_chars" "CHR ''+'' \<in> numeral_chars" "CHR ''0'' \<in> numeral_chars"
    by (simp_all add: numeral_chars_def)
  then show ?thesis
    using digits_numeral[of "nat \<bar>x\<bar>"] by (auto simp: exponent_str_def)
qed

lemma repr_layout_numeral:
  assumes "set ds \<subseteq> numeral_chars"
  shows "set (repr_layout ds decpt) \<subseteq> numeral_chars"
proof -
  have c: "CHR ''0'' \<in> numeral_chars" "CHR ''.'' \<in> numeral_chars" "CHR ''e'' \<in> numeral_chars"
    by (simp_all add: numeral_chars_def)
  show ?thesis
    using assms c exponent_numeral[of "decpt - 1"]
    by (auto simp: repr_layout_def dest: in_set_dropD in_set_takeD)
qed

lemma float_repr_numeral: "set (float_repr (Finite s m e)) \<subseteq> numeral_chars"
proof -
  obtain c k where ck: "shortest_digits m e = (c, k)" by (cases "shortest_digits m e")
  have c: "CHR ''0'' \<in> numeral_chars" "CHR ''.'' \<in> numeral_chars"
    by (simp_all add: numeral_chars_def)
  show ?thesis
    using repr_layout_numeral[OF digits_numeral, of c "int (length (digits c)) + k"]
      sign_numeral[of s] c
    by (simp add: ck)
qed

lemma py_str_numeral: "is_real v \<Longrightarrow> set (py_str v) \<subseteq> numeral_chars"
proof (induction v rule: is_real.induct)
  case (1 i)
  then show ?case using int_str_numeral[of i] by simp
next
  case (2 s m e)
  then show ?case using float_repr_numeral[of s m e] by simp
qed simp_all


lemma map_of_row_at:
  "map_of (row_at df i) name = map_option (\<lambda>c. astype (row_dtype df) (cell c i)) (map_of df name)"
  by (simp add: row_at_def map_of_map)

lemma dataset_column:
  assumes "is_dataset df" and "name \<in> set required_columns"
  shows "\<exists>c. map_of df name = Some c \<and> real_column c \<and> column_length c = nrows df"
proof -
  from assms have "name \<in> set (map fst df)"
    by (simp add: is_dataset_def list_all_iff)
  then obtain c where c: "(name, c) \<in> set df" by auto
  from assms(1) have "distinct (map fst df)" by (simp add: is_dataset_def)
  with c have "map_of df name = Some c" by simp
  moreover from assms(1) c have "real_column c \<and> column_length c = nrows df"
    by (auto simp: is_dataset_def list_all_iff)
  ultimately show ?thesis by blast
qed

lemma real_cell: "real_column c \<Longrightarrow> i < column_length c \<Longrightarrow> is_real (cell c i)"
  by (cases c) (simp_all add: list_all_length)

lemma real_astype: "is_real v \<Longrightarrow> is_real (astype t v)"
  by (cases t; cases v) (simp_all add: int_to_float_def Let_def)

lemma dataset_field:
  assumes "is_dataset df" and "i < nrows df" and "name \<in> set required_columns"
  shows "\<exists>v. map_of (row_at df i) name = Some v \<and> is_real v"
proof -
  from dataset_column[OF assms(1,3)] obtain c where
    c: "map_of df name = Some c" "real_column c" "column_length c = nrows df" by blast
  then have "is_real (astype (row_dtype df) (cell c i))"
    using assms(2) by (simp add: real_cell real_astype)
  with c(1) show ?thesis by (simp add: map_of_row_at)
qed

lemma dataset_row:
  assumes "is_dataset df" and "r \<in> set (iterrows df)" and "name \<in> set required_columns"
  shows "\<exists>v. map_of r name = Some v \<and> is_real v"
proof -
  from assms(2) obtain i where "i < nrows df" "r = row_at df i"
    by (auto simp: iterrows_def)
  with dataset_field[OF assms(1) _ assms(3)] show ?thesis by blast
qed

lemma dataset_record:
  assumes "is_dataset df" and "d \<in> set (records df)"
  shows "is_real (Position d) \<and> is_real (ShearForce d) \<and> is_real (BendingMoment d)"
proof -
  from assms(2) obtain r where r: "r \<in> set (iterrows df)" "d = record_of r"
    by (auto simp: records_def)
  have "\<exists>v. map_of r name = Some v \<and> is_real v" if "name \<in> set required_columns" for name
    using dataset_row[OF assms(1) r(1) that] .
  from this[of "''X''"] this[of "''Shear force''"] this[of "''Bending Moment''"]
  show ?thesis by (auto simp: r(2) record_of_def required_columns_def)
qed

lemma add_coordinates_ok:
  assumes "\<forall>r\<in>set rows. (\<exists>v. map_of r ''X'' = Some v) \<and> (\<exists>v. map_of r name = Some v)"
  shows "add_coordinates name rows code =
           Inr (code @ concat (map (\<lambda>r. ''        '' @
                  coordinate_token (the (map_of r ''X'')) (the (map_of r name)) @ ''\<newline>'') rows))"
  using assms
proof (induction rows arbitrary: code)
  case Nil
  then show ?case by simp
next
  case (Cons r rows)
  from Cons.prems obtain x y where xy: "map_of r ''X'' = Some x" "map_of r name = Some y"
    by auto
  from Cons.prems have rest:
    "\<forall>r\<in>set rows. (\<exists>v. map_of r ''X'' = Some v) \<and> (\<exists>v. map_of r name = Some v)"
    by simp
  show ?case
    by (simp add: Cons.IH[OF rest] xy field_str_def getitem_def coordinate_token_def)
qed

lemma scan_skip: "CHR ''('' \<notin> set s \<Longrightarrow> scan_tokens (s @ rest) None = scan_tokens rest None"
  by (induction s) auto

lemma scan_inside:
  "CHR '')'' \<notin> set s \<Longrightarrow> scan_tokens (s @ rest) (Some t) = scan_tokens rest (Some (t @ s))"
  by (induction s arbitrary: t) auto

lemma numeral_no_paren:
  "set s \<subseteq> numeral_chars \<Longrightarrow> CHR ''('' \<notin> set s \<and> CHR '')'' \<notin> set s"
  by (auto simp: numeral_chars_def)

lemma scan_line:
  assumes "is_real x" and "is_real y"
  shows "scan_tokens (''        '' @ coordinate_token x y @ ''\<newline>'' @ rest) None =
           coordinate_token x y # scan_tokens rest None"
proof -
  have np: "CHR '')'' \<notin> set (py_str x @ '', '' @ py_str y)"
    using numeral_no_paren[OF py_str_numeral[OF assms(1)]]
      numeral_no_paren[OF py_str_numeral[OF assms(2)]] by simp
  have "scan_tokens (''        '' @ coordinate_token x y @ ''\<newline>'' @ rest) None =
          scan_tokens ((py_str x @ '', '' @ py_str y) @ '')\<newline>'' @ rest) (Some ''('')"
    by (simp add: coordinate_token_def)
  also have "\<dots> = scan_tokens ('')\<newline>'' @ rest) (Some (''('' @ py_str x @ '', '' @ py_str y))"
    by (simp only: scan_inside[OF np])
  also have "\<dots> = coordinate_token x y # scan_tokens rest None"
    by (simp add: coordinate_token_def)
  finally show ?thesis .
qed

lemma tokens_coordinate_list:
  assumes "\<forall>d\<in>set D. is_real (Position d) \<and> is_real (field d)"
  shows "coordinate_tokens (coordinate_list field D) =
           map (\<lambda>d. coordinate_token (Position d) (field d)) D"
  using assms
proof (induction D)
  case Nil
  then show ?case by (simp add: coordinate_tokens_def coordinate_list_def)
next
  case (Cons d D)
  then have "is_real (Position d)" "is_real (field d)" by simp_all
  from scan_line[OF this, of "coordinate_list field D"] Cons
  show ?case by (simp add: coordinate_tokens_def coordinate_list_def)
qed


lemma coordinate_list_rows:
  "coordinate_list ShearForce (records df) =
     concat (map (\<lambda>r. ''        '' @
        coordinate_token (the (map_of r ''X'')) (the (map_of r ''Shear force'')) @ ''\<newline>'')
        (iterrows df))"
  "coordinate_list BendingMoment (records df) =
     concat (map (\<lambda>r. ''        '' @
        coordinate_token (the (map_of r ''X'')) (the (map_of r ''Bending Moment'')) @ ''\<newline>'')
        (iterrows df))"
  by (simp_all add: coordinate_list_def records_def record_of_def comp_def)

lemma dataset_rows_have:
  assumes "is_dataset df" and "name \<in> set required_columns"
  shows "\<forall>r\<in>set (iterrows df). (\<exists>v. map_of r ''X'' = Some v) \<and> (\<exists>v. map_of r name = Some v)"
proof
  fix r assume r: "r \<in> set (iterrows df)"
  have "''X'' \<in> set required_columns" by (simp add: required_columns_def)
  from dataset_row[OF assms(1) r this] dataset_row[OF assms(1) r assms(2)]
  show "(\<exists>v. map_of r ''X'' = Some v) \<and> (\<exists>v. map_of r name = Some v)" by blast
qed

text \<open>
  C1.  For every Dataset the shear-force plot and the bending-moment plot are the fixed
  head, the coordinate list of the Records and the fixed tail.  Reading the coordinate
  list back gives exactly one token for each Record, in the order of the Records, which
  is the order of the rows of the frame; no Record is skipped, moved or merged with
  another, whatever their Positions are.
\<close>

theorem coordinates_one_per_record:
  assumes "is_dataset df"
  shows "generate_sfd_plot df = Inr (sfd_head @ coordinate_list ShearForce (records df) @ sfd_tail)
       \<and> generate_bmd_plot df =
           Inr (bmd_head @ coordinate_list BendingMoment (records df) @ bmd_tail)
       \<and> coordinate_tokens (coordinate_list ShearForce (records df)) =
           map (\<lambda>d. coordinate_token (Position d) (ShearForce d)) (records df)
       \<and> coordinate_tokens (coordinate_list BendingMoment (records df)) =
           map (\<lambda>d. coordinate_token (Position d) (BendingMoment d)) (records df)
       \<and> length (records df) = nrows df
       \<and> (\<forall>i<nrows df. records df ! i = record_of (row_at df i))"
proof -
  have sf: "''Shear force'' \<in> set required_columns" and bm: "''Bending Moment'' \<in> set required_columns"
    by (simp_all add: required_columns_def)
  have "generate_sfd_plot df = Inr (sfd_head @ coordinate_list ShearForce (records df) @ sfd_tail)"
    by (simp add: generate_sfd_plot_def add_coordinates_ok[OF dataset_rows_have[OF assms sf]]
        coordinate_list_rows)
  moreover have "generate_bmd_plot df =
      Inr (bmd_head @ coordinate_list BendingMoment (records df) @ bmd_tail)"
    by (simp add: generate_bmd_plot_def add_coordinates_ok[OF dataset_rows_have[OF assms bm]]
        coordinate_list_rows)
  moreover have "coordinate_tokens (coordinate_list ShearForce (records df)) =
      map (\<lambda>d. coordinate_token (Position d) (ShearForce d)) (records df)"
    using dataset_record[OF assms] by (intro tokens_coordinate_list) blast
  moreover have "coordinate_tokens (coordinate_list BendingMoment (records df)) =
      map (\<lambda>d. coordinate_token (Position d) (BendingMoment d)) (records df)"
    using dataset_record[OF assms] by (intro tokens_coordinate_list) blast
  moreover have "length (records df) = nrows df"
    by (simp add: records_def iterrows_def)
  moreover have "\<forall>i<nrows df. records df ! i = record_of (row_at df i)"
    by (simp add: records_def iterrows_def)
  ultimately show ?thesis by blast
qed

lemma example_is_dataset: "is_dataset example_frame"
  by (simp add: is_dataset_def example_frame_def required_columns_def)

theorem coordinates_one_per_record_witness:
  "is_dataset example_frame
   \<and> coordinate_tokens (coordinate_list ShearForce (records example_frame)) =
       map (\<lambda>d. coordinate_token (Position d) (ShearForce d)) (records example_frame)
   \<and> length (records example_frame) = 3"
  using coordinates_one_per_record[OF example_is_dataset] example_is_dataset
  by (simp add: example_frame_def)

text \<open>
  C5.  When the spreadsheet is missing the run ends with FileNotFoundError, raised by
  the loader before a document exists, and the working directory is left as it was:
  no file is written.
\<close>

theorem missing_input_aborts:
  "files w ''beam_data.xlsx'' = None \<Longrightarrow> generate_beam_report w = (Inl FileNotFoundError, w)"
  by (simp add: generate_beam_report_def read_excel_def)

theorem missing_input_aborts_witness:
  "files empty_world ''beam_data.xlsx'' = None
   \<and> generate_beam_report empty_world = (Inl FileNotFoundError, empty_world)"
  using missing_input_aborts[of empty_world] by (simp add: empty_world_def)

lemma add_rows_items:
  "add_rows rows t = Inr t' \<Longrightarrow> \<exists>xs. t' = t @ xs \<and> list_all (\<lambda>x. x = HLine \<or> is_row x) xs"
proof (induction rows arbitrary: t)
  case Nil
  then show ?case by simp
next
  case (Cons r rows)
  from Cons.prems obtain x v m where
    "add_rows rows (t @ [Row [x, v, m], HLine]) = Inr t'"
    by (auto split: sum.splits)
  from Cons.IH[OF this] show ?case by auto
qed

lemma no_subsections: "x = HLine \<or> is_row x \<Longrightarrow> subsections x = []"
  by (cases x) auto

lemma data_table_subsections:
  assumes "data_table df = Inr table"
  shows "subsections table = []"
proof -
  from assms obtain t where t: "add_rows (iterrows df) table_header = Inr t"
    "table = Tabular ''|c|c|c|'' t"
    by (auto simp: data_table_def split: sum.splits)
  from add_rows_items[OF t(1)] obtain xs where
    xs: "t = table_header @ xs" "list_all (\<lambda>x. x = HLine \<or> is_row x) xs" by blast
  have "subsections x = []" if "x \<in> set t" for x
    using that xs no_subsections[of x] by (auto simp: table_header_def list_all_iff)
  then have "concat (map subsections t) = []" by simp
  with t(2) show ?thesis by simp
qed

text \<open>
  C9.  In every document the program builds, whatever the frame, the subsections
  "Shear Force Diagram (SFD)" and "Bending Moment Diagram (BMD)" end, after their
  introduction and their plot, with the same literal "Key Observations" lines.
\<close>

theorem key_observations_fixed:
  assumes "build_document df = Inr doc"
  shows "map_option (drop 2) (subsection_of doc ''Shear Force Diagram (SFD)'') =
           Some [Text (bs @ ''textbf{Key Observations:}''),
                 NoEscape (bs @ ''begin{itemize}''),
                 NoEscape (bs @ ''item Maximum shear force: 45 kN''),
                 NoEscape (bs @ ''item Zero shear occurs at 7.5 m from left support''),
                 NoEscape (bs @ ''item Shear force changes sign at the point of maximum moment''),
                 NoEscape (bs @ ''end{itemize}'')]
       \<and> map_option (drop 2) (subsection_of doc ''Bending Moment Diagram (BMD)'') =
           Some [Text (bs @ ''textbf{Key Observations:}''),
                 NoEscape (bs @ ''begin{itemize}''),
                 NoEscape (bs @ ''item Maximum bending moment: 168.75 kNm at 7.5 m''),
                 NoEscape (bs @ ''item Zero moments occur at both supports''),
                 NoEscape (bs @ ''item Parabolic distribution indicates uniformly distributed load''),
                 NoEscape (bs @ ''end{itemize}'')]"
proof -
  from build_document_report[OF assms] obtain table sfd bmd where
    d: "data_table df = Inr (Tabular ''|c|c|c|'' table)"
       "doc = report (Tabular ''|c|c|c|'' table) sfd bmd" by blast
  show ?thesis
    unfolding subsection_of_def d(2) subsections_report data_table_subsections[OF d(1)]
    by (simp add: sfd_observations_def bmd_observations_def)
qed

lemma empty_frame_builds:
  "build_document empty_frame =
     Inr (report (Tabular ''|c|c|c|'' table_header) (sfd_head @ sfd_tail) (bmd_head @ bmd_tail))"
  by (simp add: build_document_def data_table_def generate_sfd_plot_def generate_bmd_plot_def
      iterrows_def empty_frame_def)

theorem key_observations_fixed_witness:
  "build_document empty_frame =
     Inr (report (Tabular ''|c|c|c|'' table_header) (sfd_head @ sfd_tail) (bmd_head @ bmd_tail))
   \<and> map_option (drop 2)
       (subsection_of
         (report (Tabular ''|c|c|c|'' table_header) (sfd_head @ sfd_tail) (bmd_head @ bmd_tail))
         ''Shear Force Diagram (SFD)'') = Some sfd_observations"
  using key_observations_fixed[OF empty_frame_builds] empty_frame_builds
  by (simp add: sfd_observations_def)

text \<open>
  C6.  A frame without rows raises nothing in the loops: the coordinate list is empty,
  both plots are head and tail with no coordinates between them, the table holds the
  header row only, the document is built, and the run goes on to \<^verbatim>\<open>generate_pdf\<close> with it.
\<close>

theorem empty_dataset_no_error:
  assumes "nrows df = 0"
  shows "records df = []
       \<and> add_coordinates name (iterrows df) tikz_code = Inr tikz_code
       \<and> coordinate_list field (records df) = []
       \<and> generate_sfd_plot df = Inr (sfd_head @ sfd_tail)
       \<and> generate_bmd_plot df = Inr (bmd_head @ bmd_tail)
       \<and> data_table df = Inr (Tabular ''|c|c|c|'' table_header)
       \<and> build_document df =
           Inr (report (Tabular ''|c|c|c|'' table_header) (sfd_head @ sfd_tail)
                  (bmd_head @ bmd_tail))
       \<and> (files w ''beam_data.xlsx'' = Some (Workbook df) \<longrightarrow>
            generate_beam_report w =
              generate_pdf
                (report (Tabular ''|c|c|c|'' table_header) (sfd_head @ sfd_tail)
                   (bmd_head @ bmd_tail))
                ''beam_analysis_report'' w)"
  using iterrows_empty[OF assms]
  by (simp add: records_def coordinate_list_def generate_sfd_plot_def generate_bmd_plot_def
      data_table_def build_document_def generate_beam_report_def read_excel_def)

theorem empty_dataset_no_error_witness:
  "nrows empty_frame = 0
   \<and> is_dataset empty_frame
   \<and> generate_sfd_plot empty_frame = Inr (sfd_head @ sfd_tail)
   \<and> fst (generate_beam_report (world_with empty_frame)) = Inr ()"
  using empty_dataset_no_error[of empty_frame "''Shear force''" sfd_head ShearForce
      "world_with empty_frame"]
  by (simp add: empty_frame_def world_with_def generate_pdf_def is_dataset_def
      required_columns_def)













lemma example_rows:
  "iterrows example_frame =
     [[(''X'', PyFloat (Finite False 0 0)), (''Shear force'', PyFloat (Finite False 0 0)),
       (''Bending Moment'', PyFloat (Finite False 0 0))],
      [(''X'', PyFloat (Finite False 6 0)), (''Shear force'', PyFloat (Finite False 15 0)),
       (''Bending Moment'', PyFloat (Finite False 135 (- 1)))],
      [(''X'', PyFloat (Finite False 12 0)), (''Shear force'', PyFloat (Finite False 0 0)),
       (''Bending Moment'', PyFloat (Finite False 0 0))]]"
  by (simp add: iterrows_def row_at_def example_frame_def row_dtype_def int_to_float_def
      bitlen.simps upt_rec_numeral)

lemmas float_eval = shortest_digits_def shortest.simps nearest_at_def reads_back_def units_def
  unit_exp_def ulp_exp_def half_above_def half_below_def mantissa_even_def dec_scale_def
  bin_scale_def bitlen.simps digits.simps digit_char_def repr_layout_def sign_str_def

lemma repr_0: "float_repr (Finite False 0 0) = ''0.0''"
  by (simp add: sign_str_def)

lemma repr_6: "float_repr (Finite False 6 0) = ''6.0''"
  by (simp add: float_eval)

lemma repr_12: "float_repr (Finite False 12 0) = ''12.0''"
  by (simp add: float_eval)

lemma repr_15: "float_repr (Finite False 15 0) = ''15.0''"
  by (simp add: float_eval)

lemma repr_67_5: "float_repr (Finite False 135 (- 1)) = ''67.5''"
  by (simp add: float_eval)

lemma example_records:
  "records example_frame =
     [\<lparr>Position = PyFloat (Finite False 0 0), ShearForce = PyFloat (Finite False 0 0),
       BendingMoment = PyFloat (Finite False 0 0)\<rparr>,
      \<lparr>Position = PyFloat (Finite False 6 0), ShearForce = PyFloat (Finite False 15 0),
       BendingMoment = PyFloat (Finite False 135 (- 1))\<rparr>,
      \<lparr>Position = PyFloat (Finite False 12 0), ShearForce = PyFloat (Finite False 0 0),
       BendingMoment = PyFloat (Finite False 0 0)\<rparr>]"
  by (simp add: records_def example_rows record_of_def)



lemma example_sfd_coordinates:
  "add_coordinates ''Shear force'' (iterrows example_frame) [] =
     Inr (''        (0.0, 0.0)\<newline>'' @ ''        (6.0, 15.0)\<newline>'' @ ''        (12.0, 0.0)\<newline>'')"
  by (simp add: example_rows field_str_def getitem_def repr_0 repr_6 repr_12 repr_15
      del: float_repr.simps)

lemma example_bmd_coordinates:
  "add_coordinates ''Bending Moment'' (iterrows example_frame) [] =
     Inr (''        (0.0, 0.0)\<newline>'' @ ''        (6.0, 67.5)\<newline>'' @ ''        (12.0, 0.0)\<newline>'')"
  by (simp add: example_rows field_str_def getitem_def repr_0 repr_6 repr_12 repr_67_5
      del: float_repr.simps)

lemma example_sfd_tokens:
  "coordinate_tokens (coordinate_list ShearForce (records example_frame)) =
     [''(0.0, 0.0)'', ''(6.0, 15.0)'', ''(12.0, 0.0)'']"
  by (simp add: example_records coordinate_list_def coordinate_token_def coordinate_tokens_def
      repr_0 repr_6 repr_12 repr_15 del: float_repr.simps)

lemma example_bmd_tokens:
  "coordinate_tokens (coordinate_list BendingMoment (records example_frame)) =
     [''(0.0, 0.0)'', ''(6.0, 67.5)'', ''(12.0, 0.0)'']"
  by (simp add: example_records coordinate_list_def coordinate_token_def coordinate_tokens_def
      repr_0 repr_6 repr_12 repr_67_5 del: float_repr.simps)

text \<open>
  C3, as the program behaves.  For the Dataset [(0, 0, 0), (6, 15, 67.5), (12, 0, 0)]
  the loop for the shear force appends the three lines \<^verbatim>\<open>(0.0, 0.0)\<close>, \<^verbatim>\<open>(6.0, 15.0)\<close>,
  \<^verbatim>\<open>(12.0, 0.0)\<close> and the loop for the bending moment the lines \<^verbatim>\<open>(0.0, 0.0)\<close>,
  \<^verbatim>\<open>(6.0, 67.5)\<close>, \<^verbatim>\<open>(12.0, 0.0)\<close>, each indented by eight spaces: the pairs of the
  Dataset in its order, the numbers written as floats, a comma and a space inside a
  token and a line break after it.
\<close>

theorem example_coordinates:
  "add_coordinates ''Shear force'' (iterrows example_frame) [] =
     Inr (''        (0.0, 0.0)\<newline>'' @ ''        (6.0, 15.0)\<newline>'' @ ''        (12.0, 0.0)\<newline>'')
   \<and> add_coordinates ''Bending Moment'' (iterrows example_frame) [] =
     Inr (''        (0.0, 0.0)\<newline>'' @ ''        (6.0, 67.5)\<newline>'' @ ''        (12.0, 0.0)\<newline>'')
   \<and> coordinate_tokens (coordinate_list ShearForce (records example_frame)) =
       [''(0.0, 0.0)'', ''(6.0, 15.0)'', ''(12.0, 0.0)'']
   \<and> coordinate_tokens (coordinate_list BendingMoment (records example_frame)) =
       [''(0.0, 0.0)'', ''(6.0, 67.5)'', ''(12.0, 0.0)'']"
  using example_sfd_coordinates example_bmd_coordinates example_sfd_tokens example_bmd_tokens
  by (simp only: simp_thms)

text \<open>
  C3, as the claim states it, fails: neither the text the loops append nor the tokens
  in it are \<^verbatim>\<open>(0,0) (6,15) (12,0)\<close> and \<^verbatim>\<open>(0,0) (6,67.5) (12,0)\<close>.
\<close>

theorem example_coordinates_counterexample:
  "\<not> (add_coordinates ''Shear force'' (iterrows example_frame) [] = Inr ''(0,0) (6,15) (12,0)''
      \<and> add_coordinates ''Bending Moment'' (iterrows example_frame) [] =
          Inr ''(0,0) (6,67.5) (12,0)'')
   \<and> coordinate_tokens (coordinate_list ShearForce (records example_frame)) \<noteq>
       [''(0,0)'', ''(6,15)'', ''(12,0)'']
   \<and> coordinate_tokens (coordinate_list BendingMoment (records example_frame)) \<noteq>
       [''(0,0)'', ''(6,67.5)'', ''(12,0)'']"
  using example_sfd_coordinates example_sfd_tokens example_bmd_tokens by simp







text \<open>
  C7.  The source the program writes is the document built from the frame of the
  input file and from nothing else: whatever else the working directory holds and
  whatever the compiler does, a run that gets as far as building the document writes
  that document, leaves the input file as it was, and a second run writes the same
  source again.  The date of the document is the macro \<^verbatim>\<open>\today\<close>, not a time stamp.
\<close>

theorem generated_source_deterministic:
  assumes "files w ''beam_data.xlsx'' = Some (Workbook df)" and "build_document df = Inr doc"
  shows "files (snd (generate_beam_report w)) ''beam_analysis_report.tex'' = Some (TexSource doc)
       \<and> files (snd (generate_beam_report w)) ''beam_data.xlsx'' = Some (Workbook df)
       \<and> files (snd (generate_beam_report (snd (generate_beam_report w))))
           ''beam_analysis_report.tex'' = Some (TexSource doc)
       \<and> preamble doc =
           [Command ''title'' (Text ''Beam Analysis Report''),
            Command ''author'' (Text ''Structural Engineering Analysis''),
            Command ''date'' (NoEscape (bs @ ''today''))]"
proof -
  have run: "files (snd (generate_beam_report v)) ''beam_analysis_report.tex'' = Some (TexSource doc)
      \<and> files (snd (generate_beam_report v)) ''beam_data.xlsx'' = Some (Workbook df)"
    if "files v ''beam_data.xlsx'' = Some (Workbook df)" for v
    using that assms(2)
    by (simp add: generate_beam_report_def read_excel_def generate_pdf_def Let_def
        split: option.splits)
  from build_document_report[OF assms(2)] have "preamble doc =
      [Command ''title'' (Text ''Beam Analysis Report''),
       Command ''author'' (Text ''Structural Engineering Analysis''),
       Command ''date'' (NoEscape (bs @ ''today''))]"
    by (auto simp: report_def)
  with run[OF assms(1)] run[of "snd (generate_beam_report w)"] show ?thesis by simp
qed

theorem generated_source_deterministic_witness:
  "files (world_with empty_frame) ''beam_data.xlsx'' = Some (Workbook empty_frame)
   \<and> build_document empty_frame =
       Inr (report (Tabular ''|c|c|c|'' table_header) (sfd_head @ sfd_tail) (bmd_head @ bmd_tail))
   \<and> files (snd (generate_beam_report (snd (generate_beam_report (world_with empty_frame)))))
        ''beam_analysis_report.tex'' =
      files (snd (generate_beam_report (world_with empty_frame))) ''beam_analysis_report.tex''"
proof -
  have h: "files (world_with empty_frame) ''beam_data.xlsx'' = Some (Workbook empty_frame)"
    by (simp add: world_with_def)
  from generated_source_deterministic[OF h empty_frame_builds] h empty_frame_builds
  show ?thesis by simp
qed






lemma occurrences_skip:
  assumes "pat \<noteq> []" and "hd pat \<notin> set mid"
  shows "occurrences pat (mid @ rest) = occurrences pat rest"
  using assms(2)
proof (induction mid)
  case Nil
  then show ?case by simp
next
  case (Cons c mid)
  from assms(1) obtain p ps where p: "pat = p # ps" by (cases pat) auto
  with Cons.prems have "p \<noteq> c" by auto
  with Cons show ?case by (simp add: p)
qed

lemma coordinate_list_chars:
  assumes "\<forall>d\<in>set D. is_real (Position d) \<and> is_real (field d)"
  shows "set (coordinate_list field D) \<subseteq> numeral_chars \<union> set '' (,)\<newline>''"
  using assms
proof (induction D)
  case Nil
  then show ?case by (simp add: coordinate_list_def)
next
  case (Cons d D)
  then have "set (py_str (Position d)) \<subseteq> numeral_chars" "set (py_str (field d)) \<subseteq> numeral_chars"
    by (simp_all add: py_str_numeral)
  moreover from Cons have "set (coordinate_list field D) \<subseteq> numeral_chars \<union> set '' (,)\<newline>''"
    by simp
  ultimately show ?case
    by (auto simp: coordinate_list_def coordinate_token_def)
qed

lemma not_in_coordinates:
  assumes "\<forall>d\<in>set D. is_real (Position d) \<and> is_real (field d)"
  shows "CHR 0x5C \<notin> set (coordinate_list field D)" and "CHR ''d'' \<notin> set (coordinate_list field D)"
proof -
  have "CHR 0x5C \<notin> numeral_chars \<union> set '' (,)\<newline>''" "CHR ''d'' \<notin> numeral_chars \<union> set '' (,)\<newline>''"
    by (simp_all add: numeral_chars_def)
  with coordinate_list_chars[OF assms]
  show "CHR 0x5C \<notin> set (coordinate_list field D)" and "CHR ''d'' \<notin> set (coordinate_list field D)"
    by blast+
qed

lemma occurrences_plot:
  assumes "pat \<noteq> []" and "hd pat \<notin> set mid"
    and "\<And>rest. occurrences pat (h @ rest) = n + occurrences pat rest"
  shows "occurrences pat (h @ mid @ t) = n + occurrences pat t"
  by (simp add: assms(3) occurrences_skip[OF assms(1,2)])

lemma sfd_head_addplot:
  "occurrences (bs @ ''addplot'') (sfd_head @ rest) = 1 + occurrences (bs @ ''addplot'') rest"
  by (simp add: sfd_head_def)

lemma sfd_tail_addplot: "occurrences (bs @ ''addplot'') sfd_tail = 1"
  by (simp add: sfd_tail_def)

lemma sfd_count_addplot:
  assumes "CHR 0x5C \<notin> set mid"
  shows "occurrences (bs @ ''addplot'') (sfd_head @ mid @ sfd_tail) = 2"
proof -
  have "occurrences (bs @ ''addplot'') (sfd_head @ mid @ sfd_tail) =
      1 + occurrences (bs @ ''addplot'') sfd_tail"
    using assms by (intro occurrences_plot sfd_head_addplot) simp_all
  then show ?thesis by (simp only: sfd_tail_addplot)
qed

lemma sfd_head_zero:
  "occurrences (bs @ ''addplot[color=red, dashed, line width=1pt] coordinates {(0,0) (12,0)};'') (sfd_head @ rest) = 0 + occurrences (bs @ ''addplot[color=red, dashed, line width=1pt] coordinates {(0,0) (12,0)};'') rest"
  by (simp add: sfd_head_def)

lemma sfd_tail_zero: "occurrences (bs @ ''addplot[color=red, dashed, line width=1pt] coordinates {(0,0) (12,0)};'') sfd_tail = 1"
  by (simp add: sfd_tail_def)

lemma sfd_count_zero:
  assumes "CHR 0x5C \<notin> set mid"
  shows "occurrences (bs @ ''addplot[color=red, dashed, line width=1pt] coordinates {(0,0) (12,0)};'') (sfd_head @ mid @ sfd_tail) = 1"
proof -
  have "occurrences (bs @ ''addplot[color=red, dashed, line width=1pt] coordinates {(0,0) (12,0)};'') (sfd_head @ mid @ sfd_tail) =
      0 + occurrences (bs @ ''addplot[color=red, dashed, line width=1pt] coordinates {(0,0) (12,0)};'') sfd_tail"
    using assms by (intro occurrences_plot sfd_head_zero) simp_all
  then show ?thesis by (simp only: sfd_tail_zero)
qed

lemma sfd_head_legend:
  "occurrences (bs @ ''legend'') (sfd_head @ rest) = 0 + occurrences (bs @ ''legend'') rest"
  by (simp add: sfd_head_def)

lemma sfd_tail_legend: "occurrences (bs @ ''legend'') sfd_tail = 1"
  by (simp add: sfd_tail_def)

lemma sfd_count_legend:
  assumes "CHR 0x5C \<notin> set mid"
  shows "occurrences (bs @ ''legend'') (sfd_head @ mid @ sfd_tail) = 1"
proof -
  have "occurrences (bs @ ''legend'') (sfd_head @ mid @ sfd_tail) =
      0 + occurrences (bs @ ''legend'') sfd_tail"
    using assms by (intro occurrences_plot sfd_head_legend) simp_all
  then show ?thesis by (simp only: sfd_tail_legend)
qed

lemma sfd_head_sfl:
  "occurrences (bs @ ''legend{Shear Force, Zero Line}'') (sfd_head @ rest) = 0 + occurrences (bs @ ''legend{Shear Force, Zero Line}'') rest"
  by (simp add: sfd_head_def)

lemma sfd_tail_sfl: "occurrences (bs @ ''legend{Shear Force, Zero Line}'') sfd_tail = 1"
  by (simp add: sfd_tail_def)

lemma sfd_count_sfl:
  assumes "CHR 0x5C \<notin> set mid"
  shows "occurrences (bs @ ''legend{Shear Force, Zero Line}'') (sfd_head @ mid @ sfd_tail) = 1"
proof -
  have "occurrences (bs @ ''legend{Shear Force, Zero Line}'') (sfd_head @ mid @ sfd_tail) =
      0 + occurrences (bs @ ''legend{Shear Force, Zero Line}'') sfd_tail"
    using assms by (intro occurrences_plot sfd_head_sfl) simp_all
  then show ?thesis by (simp only: sfd_tail_sfl)
qed

lemma bmd_head_addplot:
  "occurrences (bs @ ''addplot'') (bmd_head @ rest) = 1 + occurrences (bs @ ''addplot'') rest"
  by (simp add: bmd_head_def)

lemma bmd_tail_addplot: "occurrences (bs @ ''addplot'') bmd_tail = 0"
  by (simp add: bmd_tail_def)

lemma bmd_count_addplot:
  assumes "CHR 0x5C \<notin> set mid"
  shows "occurrences (bs @ ''addplot'') (bmd_head @ mid @ bmd_tail) = 1"
proof -
  have "occurrences (bs @ ''addplot'') (bmd_head @ mid @ bmd_tail) =
      1 + occurrences (bs @ ''addplot'') bmd_tail"
    using assms by (intro occurrences_plot bmd_head_addplot) simp_all
  then show ?thesis by (simp only: bmd_tail_addplot)
qed

lemma bmd_head_dashed:
  "occurrences (''dashed'') (bmd_head @ rest) = 0 + occurrences (''dashed'') rest"
  by (simp add: bmd_head_def)

lemma bmd_tail_dashed: "occurrences (''dashed'') bmd_tail = 0"
  by (simp add: bmd_tail_def)

lemma bmd_count_dashed:
  assumes "CHR ''d'' \<notin> set mid"
  shows "occurrences (''dashed'') (bmd_head @ mid @ bmd_tail) = 0"
proof -
  have "occurrences (''dashed'') (bmd_head @ mid @ bmd_tail) =
      0 + occurrences (''dashed'') bmd_tail"
    using assms by (intro occurrences_plot bmd_head_dashed) simp_all
  then show ?thesis by (simp only: bmd_tail_dashed)
qed

lemma bmd_head_legend:
  "occurrences (bs @ ''legend'') (bmd_head @ rest) = 0 + occurrences (bs @ ''legend'') rest"
  by (simp add: bmd_head_def)

lemma bmd_tail_legend: "occurrences (bs @ ''legend'') bmd_tail = 1"
  by (simp add: bmd_tail_def)

lemma bmd_count_legend:
  assumes "CHR 0x5C \<notin> set mid"
  shows "occurrences (bs @ ''legend'') (bmd_head @ mid @ bmd_tail) = 1"
proof -
  have "occurrences (bs @ ''legend'') (bmd_head @ mid @ bmd_tail) =
      0 + occurrences (bs @ ''legend'') bmd_tail"
    using assms by (intro occurrences_plot bmd_head_legend) simp_all
  then show ?thesis by (simp only: bmd_tail_legend)
qed

lemma bmd_head_bml:
  "occurrences (bs @ ''legend{Bending Moment}'') (bmd_head @ rest) = 0 + occurrences (bs @ ''legend{Bending Moment}'') rest"
  by (simp add: bmd_head_def)

lemma bmd_tail_bml: "occurrences (bs @ ''legend{Bending Moment}'') bmd_tail = 1"
  by (simp add: bmd_tail_def)

lemma bmd_count_bml:
  assumes "CHR 0x5C \<notin> set mid"
  shows "occurrences (bs @ ''legend{Bending Moment}'') (bmd_head @ mid @ bmd_tail) = 1"
proof -
  have "occurrences (bs @ ''legend{Bending Moment}'') (bmd_head @ mid @ bmd_tail) =
      0 + occurrences (bs @ ''legend{Bending Moment}'') bmd_tail"
    using assms by (intro occurrences_plot bmd_head_bml) simp_all
  then show ?thesis by (simp only: bmd_tail_bml)
qed

text \<open>
  C10.  For every Dataset the shear-force plot has two \<^verbatim>\<open>\addplot\<close> commands, the
  second being the dashed red line through (0,0) and (12,0), and one legend with the
  two entries "Shear Force, Zero Line"; the bending-moment plot has one \<^verbatim>\<open>\addplot\<close>
  command, nothing dashed, and one legend with the entry "Bending Moment".
\<close>

theorem zero_line_only_in_shear_plot:
  assumes "is_dataset df"
  shows "\<exists>sfd bmd. generate_sfd_plot df = Inr sfd \<and> generate_bmd_plot df = Inr bmd
       \<and> occurrences (bs @ ''addplot'') sfd = 2
       \<and> occurrences (bs @ ''addplot[color=red, dashed, line width=1pt] coordinates {(0,0) (12,0)};'') sfd = 1
       \<and> occurrences (bs @ ''legend'') sfd = 1
       \<and> occurrences (bs @ ''legend{Shear Force, Zero Line}'') sfd = 1
       \<and> occurrences (bs @ ''addplot'') bmd = 1
       \<and> occurrences (''dashed'') bmd = 0
       \<and> occurrences (bs @ ''legend'') bmd = 1
       \<and> occurrences (bs @ ''legend{Bending Moment}'') bmd = 1"
proof -
  have sf: "''Shear force'' \<in> set required_columns" and bm: "''Bending Moment'' \<in> set required_columns"
    by (simp_all add: required_columns_def)
  have s: "generate_sfd_plot df = Inr (sfd_head @ coordinate_list ShearForce (records df) @ sfd_tail)"
    by (simp add: generate_sfd_plot_def add_coordinates_ok[OF dataset_rows_have[OF assms sf]]
        coordinate_list_rows)
  have b: "generate_bmd_plot df =
      Inr (bmd_head @ coordinate_list BendingMoment (records df) @ bmd_tail)"
    by (simp add: generate_bmd_plot_def add_coordinates_ok[OF dataset_rows_have[OF assms bm]]
        coordinate_list_rows)
  have rs: "\<forall>d\<in>set (records df). is_real (Position d) \<and> is_real (ShearForce d)"
    and rb: "\<forall>d\<in>set (records df). is_real (Position d) \<and> is_real (BendingMoment d)"
    using dataset_record[OF assms] by blast+
  note ns = not_in_coordinates[OF rs] and nb = not_in_coordinates[OF rb]
  note counts = sfd_count_addplot[OF ns(1)] sfd_count_zero[OF ns(1)] sfd_count_legend[OF ns(1)] sfd_count_sfl[OF ns(1)] bmd_count_addplot[OF nb(1)] bmd_count_dashed[OF nb(2)] bmd_count_legend[OF nb(1)] bmd_count_bml[OF nb(1)]
  show ?thesis
    unfolding s b using counts by (intro exI conjI) (rule refl | assumption)+
qed

theorem zero_line_only_in_shear_plot_witness:
  "is_dataset example_frame
   \<and> (\<exists>sfd bmd. generate_sfd_plot example_frame = Inr sfd
         \<and> generate_bmd_plot example_frame = Inr bmd
         \<and> occurrences (bs @ ''addplot'') sfd = 2 \<and> occurrences (bs @ ''addplot'') bmd = 1
         \<and> occurrences ''dashed'' bmd = 0)"
  using zero_line_only_in_shear_plot[OF example_is_dataset] example_is_dataset by blast

end
